theory Spec2Isabelle
  imports Main "HOL-Library.Sublist" "HOL-Library.AList"
begin

section \<open>Python values and library functions used by the protocols\<close>

text \<open>
  The module \<^verbatim>\<open>zaqar/transport/websocket/protocol.py\<close> prefers the Python 2 imports
  (\<^verbatim>\<open>mimetools\<close>, with \<^verbatim>\<open>trollius\<close> standing in for \<^verbatim>\<open>asyncio\<close>), and its byte
  handling (\<^verbatim>\<open>b'HTTP/1.0 %s\r\n\r\n' % status\<close>, \<^verbatim>\<open>str(self._subscriber_id)\<close>) is
  Python 2 code: \<^verbatim>\<open>bytes\<close> is \<^verbatim>\<open>str\<close>, and a \<^verbatim>\<open>bytearray\<close> compares equal to the
  \<^verbatim>\<open>str\<close> with the same bytes. Byte strings, byte arrays and text are all modelled as
  \<^typ>\<open>string\<close>, a list of 8-bit characters.
\<close>

datatype error = ValueError | TypeError | AttributeError | KeyError | IndexError | RuntimeError

text \<open>
  A raise does not undo the assignments made before it: a failed call yields the error
  together with the object's state at the raise; a call that returns yields the state.
\<close>

type_synonym 'st outcome = "(error \<times> 'st) + 'st"

definition CR :: char where "CR = CHR 0x0D"
definition LF :: char where "LF = CHR 0x0A"
definition CRLF :: string where "CRLF = [CR, LF]"

text \<open>The characters that \<^verbatim>\<open>str.split()\<close> and \<^verbatim>\<open>str.strip()\<close> treat as white space.\<close>

definition is_space :: "char \<Rightarrow> bool" where
  "is_space c = (c \<in> set [CHR '' '', CHR 0x09, CHR 0x0A, CHR 0x0B, CHR 0x0C, CHR 0x0D])"

text \<open>\<^verbatim>\<open>s.split()\<close>: the maximal runs of characters that are not white space.\<close>

function split_ws :: "string \<Rightarrow> string list" where
  "split_ws [] = []"
| "split_ws (c # cs) =
     (if is_space c then split_ws cs
      else takeWhile (\<lambda>x. \<not> is_space x) (c # cs) # split_ws (dropWhile (\<lambda>x. \<not> is_space x) cs))"
  by pat_completeness auto
termination
  by (relation "measure length") (auto simp: le_imp_less_Suc length_dropWhile_le)

definition strip :: "string \<Rightarrow> string" where
  "strip s = rev (dropWhile is_space (rev (dropWhile is_space s)))"

definition lower_char :: "char \<Rightarrow> char" where
  "lower_char c =
     (case map_of (zip ''ABCDEFGHIJKLMNOPQRSTUVWXYZ'' ''abcdefghijklmnopqrstuvwxyz'') c of
        Some d \<Rightarrow> d | None \<Rightarrow> c)"

definition upper_char :: "char \<Rightarrow> char" where
  "upper_char c =
     (case map_of (zip ''abcdefghijklmnopqrstuvwxyz'' ''ABCDEFGHIJKLMNOPQRSTUVWXYZ'') c of
        Some d \<Rightarrow> d | None \<Rightarrow> c)"

definition lower :: "string \<Rightarrow> string" where "lower s = map lower_char s"
definition upper :: "string \<Rightarrow> string" where "upper s = map upper_char s"

text \<open>
  \<^verbatim>\<open>sep in s\<close> followed by \<^verbatim>\<open>s.split(sep, 1)\<close>, for a separator that is not empty:
  \<open>None\<close> when \<open>sep\<close> does not occur, else the part before its first occurrence and the
  part after it.
\<close>

fun split1 :: "string \<Rightarrow> string \<Rightarrow> (string \<times> string) option" where
  "split1 sep [] = None"
| "split1 sep (c # cs) =
     (if prefix sep (c # cs) then Some ([], drop (length sep) (c # cs))
      else case split1 sep cs of None \<Rightarrow> None | Some (a, b) \<Rightarrow> Some (c # a, b))"

text \<open>
  \<^verbatim>\<open>int(s)\<close> on a string: white space around an optional sign and at least one decimal
  digit; anything else raises \<^verbatim>\<open>ValueError\<close> (\<open>None\<close>).
\<close>

definition digit_val :: "char \<Rightarrow> int option" where
  "digit_val c = map_of (zip ''0123456789'' [0, 1, 2, 3, 4, 5, 6, 7, 8, 9]) c"

fun digits_val :: "int \<Rightarrow> string \<Rightarrow> int option" where
  "digits_val acc [] = Some acc"
| "digits_val acc (c # cs) =
     (case digit_val c of None \<Rightarrow> None | Some d \<Rightarrow> digits_val (10 * acc + d) cs)"

definition py_int :: "string \<Rightarrow> int option" where
  "py_int s =
     (case strip s of
        [] \<Rightarrow> None
      | c # cs \<Rightarrow>
          if c = CHR ''-'' then (if cs = [] then None else map_option uminus (digits_val 0 cs))
          else if c = CHR ''+'' then (if cs = [] then None else digits_val 0 cs)
          else digits_val 0 (c # cs))"

subsection \<open>The header reader of \<^verbatim>\<open>mimetools.Message\<close>\<close>

text \<open>\<^verbatim>\<open>fp.readline()\<close> until the end of the file: every line keeps its line feed.\<close>

fun readlines :: "string \<Rightarrow> string list" where
  "readlines [] = []"
| "readlines (c # cs) =
     (if c = LF then [c] # readlines cs
      else case readlines cs of [] \<Rightarrow> [[c]] | l # ls \<Rightarrow> (c # l) # ls)"

definition isheader :: "string \<Rightarrow> string option" where
  "isheader line =
     (if CHR '':'' \<in> set line then Some (lower (takeWhile (\<lambda>c. c \<noteq> CHR '':'') line)) else None)"

text \<open>
  \<^verbatim>\<open>rfc822.Message.readheaders\<close>: the loop over the lines, with the flag \<open>firstline\<close>, the
  name \<open>headerseen\<close> of the last header and the dictionary built so far. Leading
  \<^verbatim>\<open>From \<close> lines are skipped, a line that starts with a blank continues the last header, an
  empty line ends the block, a line with a colon is a header (one with an empty name is
  dropped), and any other line stops the reader.
\<close>

fun readheaders :: "string list \<Rightarrow> bool \<Rightarrow> string \<Rightarrow> (string \<times> string) list
    \<Rightarrow> (string \<times> string) list" where
  "readheaders [] firstline headerseen dict = dict"
| "readheaders (line # rest) firstline headerseen dict =
     (if firstline \<and> prefix ''From '' line then readheaders rest firstline headerseen dict
      else if headerseen \<noteq> [] \<and> (take 1 line = '' '' \<or> take 1 line = [CHR 0x09]) then
        readheaders rest False headerseen
          (AList.update headerseen
             (strip ((case map_of dict headerseen of None \<Rightarrow> [] | Some v \<Rightarrow> v)
                     @ [LF] @ '' '' @ strip line)) dict)
      else if line = CRLF \<or> line = [LF] then dict
      else case isheader line of
             None \<Rightarrow> dict
           | Some name \<Rightarrow>
               if name \<noteq> [] then
                 readheaders rest False name
                   (AList.update name (strip (drop (length name + 1) line)) dict)
               else readheaders rest False name dict)"

text \<open>\<^verbatim>\<open>Message(io.BytesIO(headers)).get(name)\<close>.\<close>

definition Message_get :: "string \<Rightarrow> string \<Rightarrow> string option" where
  "Message_get headers name = map_of (readheaders (readlines headers) True [] []) (lower name)"

section \<open>The notification protocol\<close>

datatype phase = INIT | HEADERS | BODY

text \<open>
  The fields of \<^verbatim>\<open>NotificationProtocol\<close>, with what its two collaborators have seen: the
  byte strings written to the transport and whether it was closed, and the calls
  \<^verbatim>\<open>send_data(data, subscriber_id)\<close> made on the factory.
\<close>

record notification =
  data :: string
  state :: phase
  subscriber_id :: "string option"
  length' :: int
  written :: "string list"
  closed :: bool
  sent :: "(string \<times> string) list"

definition connection_made :: notification where
  "connection_made =
     \<lparr>data = [], state = INIT, subscriber_id = None, length' = 0,
      written = [], closed = False, sent = []\<rparr>"

definition write_status :: "string \<Rightarrow> notification \<Rightarrow> notification" where
  "write_status status s =
     s\<lparr>written := written s @ [''HTTP/1.0 '' @ status @ CRLF @ CRLF], closed := True\<rparr>"

text \<open>
  The three \<^verbatim>\<open>if\<close> blocks of \<^verbatim>\<open>data_received\<close>. Each either leaves the function (\<open>Inl\<close>:
  a \<^verbatim>\<open>return\<close> or a raise) or falls through to the next block (\<open>Inr\<close>).
\<close>

definition init_block :: "notification \<Rightarrow> notification outcome + notification" where
  "init_block s =
     (if state s = INIT then
        (case split1 CRLF (data s) of
           None \<Rightarrow> Inr s
         | Some (first_line, rest) \<Rightarrow>
             let s1 = s\<lparr>data := rest\<rparr> in
             (case split_ws first_line of
                [verb, uri, version] \<Rightarrow>
                  if verb \<noteq> ''POST'' then Inl (Inr (write_status ''405 Not Allowed'' s1))
                  else Inr (s1\<lparr>state := HEADERS, subscriber_id := Some (drop 1 uri)\<rparr>)
              | _ \<Rightarrow> Inl (Inl (ValueError, s1))))
      else Inr s)"

definition headers_block :: "notification \<Rightarrow> notification outcome + notification" where
  "headers_block s =
     (if state s = HEADERS then
        (case split1 (CRLF @ CRLF) (data s) of
           None \<Rightarrow> Inr s
         | Some (headers, rest) \<Rightarrow>
             let s1 = s\<lparr>data := rest\<rparr> in
             (case Message_get headers ''content-length'' of
                None \<Rightarrow> Inl (Inr (write_status ''400 Bad Request'' s1))
              | Some len \<Rightarrow>
                  if len = [] then Inl (Inr (write_status ''400 Bad Request'' s1))
                  else (case py_int len of
                          None \<Rightarrow> Inl (Inl (ValueError, s1))
                        | Some n \<Rightarrow> Inr (s1\<lparr>length' := n, state := BODY\<rparr>))))
      else Inr s)"

definition body_block :: "notification \<Rightarrow> notification" where
  "body_block s =
     (if state s = BODY then
        (if int (length (data s)) \<ge> length' s then
           (case subscriber_id s of
              None \<Rightarrow> write_status ''400 Bad Request'' s
            | Some sid \<Rightarrow>
                if sid \<noteq> [] then write_status ''200 OK'' (s\<lparr>sent := sent s @ [(data s, sid)]\<rparr>)
                else write_status ''400 Bad Request'' s)
         else s)
      else s)"

definition data_received :: "notification \<Rightarrow> string \<Rightarrow> notification outcome" where
  "data_received s chunk =
     (case init_block (s\<lparr>data := data s @ chunk\<rparr>) of
        Inl r \<Rightarrow> r
      | Inr s1 \<Rightarrow>
          (case headers_block s1 of
             Inl r \<Rightarrow> r
           | Inr s2 \<Rightarrow> Inr (body_block s2)))"

text \<open>
  The event loop calls \<^verbatim>\<open>data_received\<close> once for every chunk it reads, in order; a raise
  ends the delivery.
\<close>

fun feed :: "notification \<Rightarrow> string list \<Rightarrow> notification outcome" where
  "feed s [] = Inr s"
| "feed s (c # cs) = (case data_received s c of Inl e \<Rightarrow> Inl e | Inr s' \<Rightarrow> feed s' cs)"

definition scenario_d :: string where
  "scenario_d = ''POST /sub1 HTTP/1.1'' @ CRLF @ ''Content-Length: 5'' @ CRLF @ CRLF @ ''hello''"

text \<open>
  A message that consists of a request line, a header block and a body, and what makes it
  well formed for the subscriber \<open>sid\<close>: the request line ends at the first line break and
  reads \<^verbatim>\<open>POST /sid version\<close>, the header block ends at the first empty line, and
  its \<^verbatim>\<open>Content-Length\<close> is the length of the body.
\<close>

definition message :: "string \<Rightarrow> string \<Rightarrow> string \<Rightarrow> string" where
  "message line headers body = line @ CRLF @ headers @ CRLF @ CRLF @ body"

definition well_formed :: "string \<Rightarrow> string \<Rightarrow> string \<Rightarrow> string \<Rightarrow> bool" where
  "well_formed line headers body sid =
     (split1 CRLF (message line headers body) = Some (line, headers @ CRLF @ CRLF @ body) \<and>
      split1 (CRLF @ CRLF) (headers @ CRLF @ CRLF @ body) = Some (headers, body) \<and>
      sid \<noteq> [] \<and>
      (case split_ws line of
         [verb, uri, version] \<Rightarrow> verb = ''POST'' \<and> uri = CHR ''/'' # sid
       | _ \<Rightarrow> False) \<and>
      (case Message_get headers ''content-length'' of
         None \<Rightarrow> False
       | Some len \<Rightarrow> py_int len = Some (int (length body))))"

text \<open>
  The body of \<^verbatim>\<open>data_received\<close> after the new bytes have been appended, and the
  deliveries after which the connection is still open.
\<close>

definition process :: "notification \<Rightarrow> notification outcome" where
  "process s =
     (case init_block s of
        Inl r \<Rightarrow> r
      | Inr s1 \<Rightarrow>
          (case headers_block s1 of
             Inl r \<Rightarrow> r
           | Inr s2 \<Rightarrow> Inr (body_block s2)))"

definition quiet :: "notification \<Rightarrow> string \<Rightarrow> bool" where
  "quiet s p = (case data_received s p of Inl e \<Rightarrow> False | Inr s' \<Rightarrow> \<not> closed s')"

section \<open>The messaging protocol\<close>

subsection \<open>Decoded JSON and the dictionary operations the protocol uses\<close>

text \<open>
  A decoded payload. A dictionary is the list of its items, each key once; Python's
  \<^verbatim>\<open>None\<close> is \<open>JNull\<close>. The WSGI environment is a dictionary of the same values.
\<close>

datatype json = JNull | JBool bool | JNum int | JStr string | JArr "json list"
  | JObj "(string \<times> json) list"

text \<open>
  \<^verbatim>\<open>x.get(key, default)\<close>, \<^verbatim>\<open>key in x\<close>, \<^verbatim>\<open>x.items()\<close> and \<^verbatim>\<open>x[key]\<close>: each
  raises on a value that does not support it. \<^verbatim>\<open>in\<close> is defined on dictionaries (the
  keys), on lists (the elements) and on strings (substrings).
\<close>

definition py_get :: "json \<Rightarrow> string \<Rightarrow> json \<Rightarrow> error + json" where
  "py_get p key dflt =
     (case p of
        JObj kvs \<Rightarrow> Inr (case map_of kvs key of None \<Rightarrow> dflt | Some v \<Rightarrow> v)
      | _ \<Rightarrow> Inl AttributeError)"

definition py_in :: "string \<Rightarrow> json \<Rightarrow> error + bool" where
  "py_in key x =
     (case x of
        JObj kvs \<Rightarrow> Inr (key \<in> set (map fst kvs))
      | JArr xs \<Rightarrow> Inr (JStr key \<in> set xs)
      | JStr s \<Rightarrow> Inr (key = [] \<or> split1 key s \<noteq> None)
      | _ \<Rightarrow> Inl TypeError)"

definition py_items :: "json \<Rightarrow> error + (string \<times> json) list" where
  "py_items x = (case x of JObj kvs \<Rightarrow> Inr kvs | _ \<Rightarrow> Inl AttributeError)"

definition py_getitem :: "json \<Rightarrow> string \<Rightarrow> error + json" where
  "py_getitem x key =
     (case x of
        JObj kvs \<Rightarrow> (case map_of kvs key of None \<Rightarrow> Inl KeyError | Some v \<Rightarrow> Inr v)
      | _ \<Rightarrow> Inl TypeError)"

subsection \<open>The protocol object and its collaborators\<close>

text \<open>
  The authentication strategy is an opaque factory (or \<^verbatim>\<open>None\<close>); the application it
  builds around \<^verbatim>\<open>_auth_start\<close> is the pending authenticator.
\<close>

datatype strategy = Strategy
datatype auth_app = AuthApp strategy

text \<open>
  What the protocol asks of the outside: a frame sent with \<^verbatim>\<open>sendMessage\<close>, a close
  sent with \<^verbatim>\<open>sendClose\<close>, and a call of the authenticator with the environment.
\<close>

datatype event =
    SendMessage string bool
  | SendClose int string
  | AuthCall "(string \<times> json) list"

text \<open>
  The fields of \<^verbatim>\<open>MessagingProtocol\<close>, the key of its factory, the timers pending on
  the event loop (handle and delay), the next free handle, and the events so far. Points
  in time and delays are integers, counted in microseconds as \<^verbatim>\<open>datetime\<close> does.
  The prints of \<^verbatim>\<open>onConnect\<close>, \<^verbatim>\<open>onOpen\<close>, \<^verbatim>\<open>onMessage\<close> and \<^verbatim>\<open>onClose\<close>
  are not modelled.
\<close>

record session =
  auth_strategy :: "strategy option"
  authentified :: bool
  auth_app :: "auth_app option"
  deauth_handle :: "nat option"
  secret_key :: string
  timers :: "(nat \<times> int) list"
  next_handle :: nat
  events :: "event list"

text \<open>
  \<^verbatim>\<open>json.loads\<close> fails in two ways: on text that is not JSON it raises \<^verbatim>\<open>ValueError\<close>
  (\<open>Malformed\<close>, with the text \<^verbatim>\<open>str(ex)\<close>), and it can raise an exception of another
  class (\<open>Failed\<close>), as it does with \<^verbatim>\<open>RuntimeError\<close> when the text is nested deeper than
  the interpreter's recursion limit.
\<close>

datatype decode_error = Malformed string | Failed error

text \<open>
  The request handler is external: its methods are parameters, and so are
  \<^verbatim>\<open>json.loads\<close>, \<^verbatim>\<open>json.dumps\<close> and \<^verbatim>\<open>timeutils.parse_isotime\<close> (\<open>None\<close> is its
  \<^verbatim>\<open>ValueError\<close>).
\<close>

record ('req, 'resp) handler =
  create_response :: "int \<Rightarrow> json \<Rightarrow> 'req option \<Rightarrow> 'resp"
  create_request :: "json \<Rightarrow> 'req"
  validate_request :: "json \<Rightarrow> 'req \<Rightarrow> 'resp option"
  process_request :: "'req \<Rightarrow> session \<Rightarrow> 'resp"
  verify_signature :: "string \<Rightarrow> json \<Rightarrow> bool"
  get_response :: "'resp \<Rightarrow> json"

record pylib =
  loads :: "string \<Rightarrow> decode_error + json"
  dumps :: "json \<Rightarrow> string"
  parse_isotime :: "json \<Rightarrow> int option"

definition init :: "strategy option \<Rightarrow> string \<Rightarrow> session" where
  "init strategy key =
     \<lparr>auth_strategy = strategy, authentified = False, auth_app = None, deauth_handle = None,
      secret_key = key, timers = [], next_handle = 0, events = []\<rparr>"

definition fake_env :: "(string \<times> json) list" where
  "fake_env =
     [(''REQUEST_METHOD'', JStr ''POST''), (''SERVER_NAME'', JStr ''zaqar''),
      (''SERVER_PORT'', JNum 80), (''SERVER_PROTOCOL'', JStr ''HTTP/1.1''),
      (''PATH_INFO'', JStr ''/''), (''SCRIPT_NAME'', JStr ''''),
      (''wsgi.url_scheme'', JStr ''http'')]"

definition header_to_env_var :: "string \<Rightarrow> string" where
  "header_to_env_var key =
     ''HTTP_'' @ upper (map (\<lambda>c. if c = CHR ''-'' then CHR ''_'' else c) key)"

definition send_response :: "('req, 'resp) handler \<Rightarrow> pylib \<Rightarrow> 'resp \<Rightarrow> session \<Rightarrow> session" where
  "send_response h L resp s =
     s\<lparr>events := events s @ [SendMessage (dumps L (get_response h resp)) False]\<rparr>"

text \<open>
  \<^verbatim>\<open>_authenticate\<close>: the application is built and stored before the headers are read, so
  a raise on the headers leaves it stored. What the authenticator does with the call is
  up to it: its two callbacks are operations of their own below.
\<close>

definition authenticate :: "session \<Rightarrow> json \<Rightarrow> session outcome" where
  "authenticate s payload =
     (case auth_strategy s of
        None \<Rightarrow> Inl (TypeError, s)
      | Some strategy \<Rightarrow>
          let s1 = s\<lparr>auth_app := Some (AuthApp strategy)\<rparr> in
          (case py_get payload ''headers'' JNull of
             Inl e \<Rightarrow> Inl (e, s1)
           | Inr headers \<Rightarrow>
               (case py_items headers of
                  Inl e \<Rightarrow> Inl (e, s1)
                | Inr items \<Rightarrow>
                    let env = fold (\<lambda>(key, value). AList.update (header_to_env_var key) value)
                                items fake_env
                    in Inr (s1\<lparr>events := events s1 @ [AuthCall env]\<rparr>))))"

definition onMessage ::
  "('req, 'resp) handler \<Rightarrow> pylib \<Rightarrow> session \<Rightarrow> string \<Rightarrow> bool \<Rightarrow> session outcome" where
  "onMessage h L s payload isBinary =
     (if isBinary then
        Inr (send_response h L
               (create_response h 400 (JObj [(''error'', JStr ''Schema validation failed.'')]) None) s)
      else
        (case loads L payload of
           Inl (Malformed ex) \<Rightarrow>
             Inr (send_response h L (create_response h 400 (JObj [(''error'', JStr ex)]) None) s)
         | Inl (Failed e) \<Rightarrow> Inl (e, s)
         | Inr payload \<Rightarrow>
             let req = create_request h payload in
             (case validate_request h payload req of
                Some resp \<Rightarrow> Inr (send_response h L resp s)
              | None \<Rightarrow>
                  if auth_strategy s \<noteq> None \<and> \<not> authentified s then
                    (case (if auth_app s \<noteq> None then Inr True
                           else map_sum id (\<lambda>a. a \<noteq> JStr ''authenticate'')
                                  (py_get payload ''action'' JNull)) of
                       Inl e \<Rightarrow> Inl (e, s)
                     | Inr True \<Rightarrow>
                         (case py_get payload ''headers'' (JObj []) of
                            Inl e \<Rightarrow> Inl (e, s)
                          | Inr headers \<Rightarrow>
                              (case py_in ''URL-Signature'' headers of
                                 Inl e \<Rightarrow> Inl (e, s)
                               | Inr True \<Rightarrow>
                                   if verify_signature h (secret_key s) payload then
                                     Inr (send_response h L (process_request h req s) s)
                                   else
                                     Inr (send_response h L
                                            (create_response h 403
                                               (JObj [(''error'', JStr ''Not authentified.'')])
                                               (Some req)) s)
                               | Inr False \<Rightarrow>
                                   Inr (send_response h L
                                          (create_response h 403
                                             (JObj [(''error'', JStr ''Not authentified.'')])
                                             (Some req)) s)))
                     | Inr False \<Rightarrow> authenticate s payload)
                  else
                    (case py_get payload ''action'' JNull of
                       Inl e \<Rightarrow> Inl (e, s)
                     | Inr action \<Rightarrow>
                         if action = JStr ''authenticate'' then authenticate s payload
                         else Inr (send_response h L (process_request h req s) s)))))"

definition onClose :: "session \<Rightarrow> bool \<Rightarrow> int \<Rightarrow> string \<Rightarrow> session" where
  "onClose s wasClean code reason = s"

text \<open>\<^verbatim>\<open>loop.call_later\<close> and \<^verbatim>\<open>handle.cancel()\<close>.\<close>

definition call_later :: "int \<Rightarrow> session \<Rightarrow> nat \<times> session" where
  "call_later delay s =
     (next_handle s,
      s\<lparr>timers := timers s @ [(next_handle s, delay)], next_handle := Suc (next_handle s)\<rparr>)"

definition cancel :: "nat \<Rightarrow> session \<Rightarrow> session" where
  "cancel handle s = s\<lparr>timers := filter (\<lambda>t. fst t \<noteq> handle) (timers s)\<rparr>"

text \<open>\<^verbatim>\<open>env['keystone.token_info']['token']['expires_at']\<close>.\<close>

definition token_expires_at :: "(string \<times> json) list \<Rightarrow> error + json" where
  "token_expires_at env =
     (case map_of env ''keystone.token_info'' of
        None \<Rightarrow> Inl KeyError
      | Some info \<Rightarrow>
          (case py_getitem info ''token'' of
             Inl e \<Rightarrow> Inl e
           | Inr token \<Rightarrow> py_getitem token ''expires_at''))"

definition auth_start ::
  "pylib \<Rightarrow> session \<Rightarrow> (string \<times> json) list \<Rightarrow> int
     \<Rightarrow> (string \<Rightarrow> session \<Rightarrow> session outcome) \<Rightarrow> session outcome" where
  "auth_start L s env now start_response =
     (let s1 = s\<lparr>authentified := True, auth_app := None\<rparr> in
      case token_expires_at env of
        Inl e \<Rightarrow> Inl (e, s1)
      | Inr expire \<Rightarrow>
          (case parse_isotime L expire of
             None \<Rightarrow> Inl (ValueError, s1)
           | Some expire_time \<Rightarrow>
               let delta = expire_time - now;
                   s2 = (case deauth_handle s1 of None \<Rightarrow> s1 | Some handle \<Rightarrow> cancel handle s1);
                   (handle, s3) = call_later delta s2
               in start_response ''200 OK'' (s3\<lparr>deauth_handle := Some handle\<rparr>)))"

definition deauthenticate :: "session \<Rightarrow> session" where
  "deauthenticate s =
     s\<lparr>authentified := False,
       events := events s @ [SendClose 4003 ''Authentication expired.'']\<rparr>"

definition auth_response ::
  "('req, 'resp) handler \<Rightarrow> pylib \<Rightarrow> string \<Rightarrow> session \<Rightarrow> session outcome" where
  "auth_response h L status s =
     (case split_ws status of
        [] \<Rightarrow> Inl (IndexError, s)
      | word # _ \<Rightarrow>
          (case py_int word of
             None \<Rightarrow> Inl (ValueError, s)
           | Some code \<Rightarrow>
               let req = create_request h (JObj [(''action'', JStr ''authenticate'')]) in
               if code \<noteq> 200 then
                 Inr (send_response h L
                        (create_response h code (JObj [(''error'', JStr ''Authentication failed.'')])
                           (Some req)) s)
               else
                 Inr (send_response h L
                        (create_response h 200 (JObj [(''message'', JStr ''Authentified.'')])
                           (Some req)) s)))"

subsection \<open>Operations on a connection\<close>

text \<open>
  What can happen to a connection: a frame arrives; the authenticator accepts and calls
  \<^verbatim>\<open>_auth_start\<close> with the environment (at the clock reading \<open>now\<close>) and with
  \<^verbatim>\<open>_auth_response\<close> as \<^verbatim>\<open>start_response\<close>; the authenticator rejects and calls
  \<^verbatim>\<open>_auth_response\<close> itself; a pending timer fires, which removes it from the loop and
  runs \<^verbatim>\<open>_deauthenticate\<close>; the connection closes.
\<close>

datatype op =
    Message string bool
  | AuthAccepted "(string \<times> json) list" int
  | AuthRejected string
  | TimerFires nat
  | Closed bool int string

definition step :: "('req, 'resp) handler \<Rightarrow> pylib \<Rightarrow> session \<Rightarrow> op \<Rightarrow> session outcome" where
  "step h L s x =
     (case x of
        Message payload isBinary \<Rightarrow> onMessage h L s payload isBinary
      | AuthAccepted env now \<Rightarrow> auth_start L s env now (auth_response h L)
      | AuthRejected status \<Rightarrow> auth_response h L status s
      | TimerFires handle \<Rightarrow>
          if handle \<in> set (map fst (timers s)) then Inr (deauthenticate (cancel handle s))
          else Inr s
      | Closed wasClean code reason \<Rightarrow> Inr (onClose s wasClean code reason))"

text \<open>
  A callback that raises leaves the protocol object as it was at the raise, and whatever
  happens to the connection next acts on that object.
\<close>

definition after :: "session outcome \<Rightarrow> session" where
  "after r = (case r of Inl (e, s) \<Rightarrow> s | Inr s \<Rightarrow> s)"




definition url_signature_present :: "(string \<times> json) list \<Rightarrow> bool" where
  "url_signature_present kvs =
     (case map_of kvs ''headers'' of
        Some (JObj headers) \<Rightarrow> ''URL-Signature'' \<in> set (map fst headers)
      | _ \<Rightarrow> False)"

definition headers_is_mapping :: "(string \<times> json) list \<Rightarrow> bool" where
  "headers_is_mapping kvs =
     (case map_of kvs ''headers'' of None \<Rightarrow> True | Some (JObj headers) \<Rightarrow> True | _ \<Rightarrow> False)"

subsection \<open>A concrete handler and library\<close>

definition quoted :: "string \<Rightarrow> string" where
  "quoted s = [CHR 0x22] @ s @ [CHR 0x22]"

definition frame_authenticate :: string where
  "frame_authenticate = ''{'' @ quoted ''action'' @ '': '' @ quoted ''authenticate'' @ ''}''"

definition frame_authenticate_headers :: string where
  "frame_authenticate_headers =
     ''{'' @ quoted ''action'' @ '': '' @ quoted ''authenticate'' @ '', '' @
     quoted ''headers'' @ '': {}}''"

definition frame_signed :: string where
  "frame_signed =
     ''{'' @ quoted ''action'' @ '': '' @ quoted ''queue_list'' @ '', '' @
     quoted ''headers'' @ '': {'' @ quoted ''URL-Signature'' @ '': '' @ quoted ''key'' @ ''}}''"


definition frame_deep :: string where
  "frame_deep = replicate 1000 (CHR ''['')"

definition demo_dumps :: "json \<Rightarrow> string" where
  "demo_dumps j =
     (case j of
        JObj [(''status'', JNum status), (''body'', JObj [(k, JStr v)])] \<Rightarrow>
          ''{'' @ quoted ''status'' @ '': '' @
          (if status = 200 then ''200'' else if status = 400 then ''400'' else ''403'') @
          '', '' @ quoted ''body'' @ '': {'' @ quoted k @ '': '' @ quoted v @ ''}}''
      | _ \<Rightarrow> ''null'')"

definition demo_handler :: "(json, int \<times> json) handler" where
  "demo_handler =
     \<lparr>create_response = (\<lambda>status body req. (status, body)),
      create_request = (\<lambda>payload. payload),
      validate_request = (\<lambda>payload req.
         case py_get payload ''action'' JNull of
           Inr (JStr a) \<Rightarrow> None
         | _ \<Rightarrow> Some (400, JObj [(''error'', JStr ''Schema validation failed.'')])),
      process_request = (\<lambda>req s. (200, JObj [(''message'', JStr ''done'')])),
      verify_signature = (\<lambda>key payload.
         py_get payload ''headers'' JNull = Inr (JObj [(''URL-Signature'', JStr key)])),
      get_response = (\<lambda>(status, body). JObj [(''status'', JNum status), (''body'', body)])\<rparr>"

definition demo_lib :: pylib where
  "demo_lib =
     \<lparr>loads = (\<lambda>text.
         if text = frame_authenticate then Inr (JObj [(''action'', JStr ''authenticate'')])
         else if text = frame_authenticate_headers then
           Inr (JObj [(''action'', JStr ''authenticate''), (''headers'', JObj [])])
         else if text = frame_signed then
           Inr (JObj [(''action'', JStr ''queue_list''),
                      (''headers'', JObj [(''URL-Signature'', JStr ''key'')])])
         else if text = frame_deep then Inl (Failed RuntimeError)
         else Inl (Malformed ''No JSON object could be decoded'')),
      dumps = demo_dumps,
      parse_isotime = (\<lambda>j. if j = JStr ''1970-01-01T00:01:00Z'' then Some 60 else None)\<rparr>"

definition demo_env :: "(string \<times> json) list" where
  "demo_env =
     [(''keystone.token_info'',
       JObj [(''token'', JObj [(''expires_at'', JStr ''1970-01-01T00:01:00Z'')])])]"

definition authenticated_session :: session where
  "authenticated_session =
     \<lparr>auth_strategy = Some Strategy, authentified = True, auth_app = None,
      deauth_handle = Some 0, secret_key = ''key'', timers = [(0, 60)], next_handle = 1,
      events = []\<rparr>"

section \<open>The notification protocol: delivery in chunks\<close>

lemma data_received_process: "data_received s c = process (s\<lparr>data := data s @ c\<rparr>)"
  by (simp add: data_received_def process_def)

lemma split1_SomeD: "split1 sep xs = Some (a, b) \<Longrightarrow> xs = a @ sep @ b"
proof (induction xs arbitrary: a)
  case Nil
  then show ?case by simp
next
  case (Cons c cs)
  show ?case
  proof (cases "prefix sep (c # cs)")
    case True
    with Cons.prems have "a = []" "b = drop (length sep) (c # cs)" by auto
    with True show ?thesis by (metis append_Nil append_eq_conv_conj prefix_def)
  next
    case False
    with Cons.prems obtain a' where "split1 sep cs = Some (a', b)" "a = c # a'"
      by (auto split: option.splits)
    with Cons.IH show ?thesis by simp
  qed
qed

lemma split1_append: "split1 sep xs = Some (a, b) \<Longrightarrow> split1 sep (xs @ ys) = Some (a, b @ ys)"
proof (induction xs arbitrary: a)
  case Nil
  then show ?case by simp
next
  case (Cons c cs)
  show ?case
  proof (cases "prefix sep (c # cs)")
    case True
    then have "prefix sep (c # cs @ ys)" by (metis append_Cons prefix_prefix)
    moreover from True have "length sep \<le> length (c # cs)" by (rule prefix_length_le)
    moreover from this have "drop (length sep) ((c # cs) @ ys) = drop (length sep) (c # cs) @ ys"
      by (simp only: drop_append) simp
    ultimately show ?thesis using Cons.prems True by (simp del: drop_append)
  next
    case False
    with Cons.prems obtain a' where a': "split1 sep cs = Some (a', b)" "a = c # a'"
      by (auto split: option.splits)
    from a'(1) have "cs = a' @ sep @ b" by (rule split1_SomeD)
    then have "length sep \<le> length (c # cs)" by simp
    with False have "\<not> prefix sep (c # cs @ ys)"
      by (metis append_Cons prefix_length_prefix prefixI prefix_order.dual_order.refl append.assoc)
    with Cons.IH[OF a'(1)] a'(2) show ?thesis by simp
  qed
qed

lemma init_block_step:
  assumes "init_block s = Inr s1"
  shows "if state s1 = INIT then s1 = s
         else init_block (s\<lparr>data := data s @ b\<rparr>) = Inr (s1\<lparr>data := data s1 @ b\<rparr>)"
  using assms
  by (auto simp: init_block_def Let_def split1_append write_status_def
      split: if_splits option.splits list.splits)

lemma headers_block_step:
  assumes "headers_block s1 = Inr s2"
  shows "if state s2 \<noteq> BODY \<or> state s1 = BODY then s2 = s1
         else headers_block (s1\<lparr>data := data s1 @ b\<rparr>) = Inr (s2\<lparr>data := data s2 @ b\<rparr>)"
  using assms
  by (auto simp: headers_block_def Let_def split1_append write_status_def
      split: if_splits option.splits list.splits)

lemma body_block_quiet: "\<not> closed (body_block s) \<Longrightarrow> body_block s = s"
  by (auto simp: body_block_def write_status_def split: if_splits option.splits)

lemma init_block_passed: "state s \<noteq> INIT \<Longrightarrow> init_block s = Inr s"
  by (simp add: init_block_def)

lemma headers_block_passed: "state s \<noteq> HEADERS \<Longrightarrow> headers_block s = Inr s"
  by (simp add: headers_block_def)

lemma init_block_return: "init_block s = Inl (Inr s') \<Longrightarrow> closed s'"
  by (auto simp: init_block_def Let_def write_status_def
      split: if_splits option.splits list.splits)

lemma headers_block_return: "headers_block s = Inl (Inr s') \<Longrightarrow> closed s'"
  by (auto simp: headers_block_def Let_def write_status_def
      split: if_splits option.splits list.splits)

lemma process_merge:
  assumes "process s = Inr s'" and "\<not> closed s'"
  shows "process (s'\<lparr>data := data s' @ b\<rparr>) = process (s\<lparr>data := data s @ b\<rparr>)"
proof -
  from assms(1) obtain s1 s2 where
    i: "init_block s = Inr s1" and h: "headers_block s1 = Inr s2" and b: "s' = body_block s2"
    using assms(2) by (auto simp: process_def split: sum.splits
        dest: init_block_return headers_block_return)
  from b assms(2) have s': "s' = s2" by (simp add: body_block_quiet)
  show ?thesis
  proof (cases "state s1 = INIT")
    case True
    with init_block_step[OF i] have "s1 = s" by simp
    moreover from True headers_block_passed[of s1] h have "s2 = s1" by simp
    ultimately show ?thesis using s' by simp
  next
    case False
    with init_block_step[OF i, of b]
    have i': "init_block (s\<lparr>data := data s @ b\<rparr>) = Inr (s1\<lparr>data := data s1 @ b\<rparr>)" by simp
    show ?thesis
    proof (cases "state s2 \<noteq> BODY \<or> state s1 = BODY")
      case True
      with headers_block_step[OF h] have "s2 = s1" by simp
      with s' i' False show ?thesis by (simp add: process_def init_block_passed)
    next
      case False
      with headers_block_step[OF h, of b]
      have h': "headers_block (s1\<lparr>data := data s1 @ b\<rparr>) = Inr (s2\<lparr>data := data s2 @ b\<rparr>)"
        by simp
      from False have "state s2 = BODY" by simp
      with s' i' h' show ?thesis
        by (simp add: process_def init_block_passed headers_block_passed)
    qed
  qed
qed

lemma data_received_merge:
  assumes "data_received s a = Inr s'" and "\<not> closed s'"
  shows "data_received s' b = data_received s (a @ b)"
  using process_merge[of "s\<lparr>data := data s @ a\<rparr>" s' b] assms
  by (simp add: data_received_process)

lemma feed_concat:
  assumes "cs \<noteq> []" and "\<And>k. 0 < k \<Longrightarrow> k < length cs \<Longrightarrow> quiet s (concat (take k cs))"
  shows "feed s cs = data_received s (concat cs)"
  using assms
proof (induction cs arbitrary: s)
  case Nil
  then show ?case by simp
next
  case (Cons c cs)
  show ?case
  proof (cases "cs = []")
    case True
    then show ?thesis by (simp split: sum.splits)
  next
    case False
    then have "quiet s (concat (take 1 (c # cs)))" by (intro Cons.prems(2)) simp_all
    then obtain s1 where s1: "data_received s c = Inr s1" "\<not> closed s1"
      by (auto simp: quiet_def split: sum.splits)
    have "quiet s1 (concat (take k cs))" if "0 < k" "k < length cs" for k
    proof -
      from that have "quiet s (concat (take (Suc k) (c # cs)))" by (intro Cons.prems(2)) simp_all
      then show ?thesis using data_received_merge[OF s1, of "concat (take k cs)"]
        by (simp add: quiet_def)
    qed
    with Cons.IH[OF False, of s1] have "feed s1 cs = data_received s1 (concat cs)" by simp
    with s1 show ?thesis using data_received_merge[OF s1, of "concat cs"] by simp
  qed
qed

lemma py_int_Nil: "py_int [] = None"
  by (simp add: py_int_def strip_def)

lemma well_formedD:
  assumes "well_formed line headers body sid"
  obtains version len where
    "split1 CRLF (message line headers body) = Some (line, headers @ CRLF @ CRLF @ body)"
    "split1 (CRLF @ CRLF) (headers @ CRLF @ CRLF @ body) = Some (headers, body)"
    "sid \<noteq> []"
    "split_ws line = [''POST'', CHR ''/'' # sid, version]"
    "Message_get headers ''content-length'' = Some len" "len \<noteq> []"
    "py_int len = Some (int (length body))"
proof -
  from assms have s: "split1 CRLF (message line headers body) = Some (line, headers @ CRLF @ CRLF @ body)"
    "split1 (CRLF @ CRLF) (headers @ CRLF @ CRLF @ body) = Some (headers, body)" "sid \<noteq> []"
    by (simp_all add: well_formed_def)
  from assms obtain version where v: "split_ws line = [''POST'', CHR ''/'' # sid, version]"
    by (auto simp: well_formed_def split: list.splits)
  from assms obtain len where l: "Message_get headers ''content-length'' = Some len"
    "py_int len = Some (int (length body))"
    by (auto simp: well_formed_def split: option.splits)
  from l(2) have "len \<noteq> []" by (auto simp: py_int_Nil)
  then show ?thesis using s v l by (intro that)
qed

lemma connection_made_data [simp]:
  "connection_made\<lparr>data := data connection_made @ c\<rparr> = connection_made\<lparr>data := c\<rparr>"
  by (simp add: connection_made_def)

lemma data_received_whole:
  assumes "well_formed line headers body sid"
  shows "data_received connection_made (message line headers body) =
         Inr \<lparr>data = body, state = BODY, subscriber_id = Some sid,
              length' = int (length body),
              written = [''HTTP/1.0 200 OK'' @ CRLF @ CRLF], closed = True,
              sent = [(body, sid)]\<rparr>"
proof -
  from assms obtain version len where wf:
    "split1 CRLF (message line headers body) = Some (line, headers @ CRLF @ CRLF @ body)"
    "split1 (CRLF @ CRLF) (headers @ CRLF @ CRLF @ body) = Some (headers, body)"
    "sid \<noteq> []"
    "split_ws line = [''POST'', CHR ''/'' # sid, version]"
    "Message_get headers ''content-length'' = Some len" "len \<noteq> []"
    "py_int len = Some (int (length body))"
    by (rule well_formedD)
  have i: "init_block (connection_made\<lparr>data := message line headers body\<rparr>) =
           Inr (connection_made\<lparr>data := headers @ CRLF @ CRLF @ body, state := HEADERS,
                                subscriber_id := Some sid\<rparr>)"
    using wf(1,4) by (simp add: init_block_def connection_made_def)
  have h: "headers_block (connection_made\<lparr>data := headers @ CRLF @ CRLF @ body, state := HEADERS,
                                subscriber_id := Some sid\<rparr>) =
           Inr (connection_made\<lparr>data := body, state := BODY, subscriber_id := Some sid,
                                length' := int (length body)\<rparr>)"
    using wf(2,5,6,7) by (simp add: headers_block_def connection_made_def)
  show ?thesis
    using wf(3) by (simp add: data_received_def i h) (simp add: body_block_def connection_made_def write_status_def)
qed

lemma quiet_prefix:
  assumes "well_formed line headers body sid"
    and "strict_prefix p (message line headers body)"
  shows "quiet connection_made p"
proof -
  from assms(1) obtain version len where wf:
    "split1 CRLF (message line headers body) = Some (line, headers @ CRLF @ CRLF @ body)"
    "split1 (CRLF @ CRLF) (headers @ CRLF @ CRLF @ body) = Some (headers, body)"
    "sid \<noteq> []"
    "split_ws line = [''POST'', CHR ''/'' # sid, version]"
    "Message_get headers ''content-length'' = Some len" "len \<noteq> []"
    "py_int len = Some (int (length body))"
    by (rule well_formedD)
  from assms(2) obtain q where q: "message line headers body = p @ q" "q \<noteq> []"
    by (auto simp: strict_prefix_def prefix_def)
  show ?thesis
  proof (cases "split1 CRLF p")
    case None
    then show ?thesis
      by (simp add: quiet_def data_received_def init_block_def headers_block_def body_block_def
          connection_made_def)
  next
    case (Some ar)
    obtain a r where ar: "ar = (a, r)" by (cases ar)
    with Some split1_append[of CRLF p a r q] wf(1) q(1)
    have a: "a = line" and r: "r @ q = headers @ CRLF @ CRLF @ body" by simp_all
    have i: "init_block (connection_made\<lparr>data := p\<rparr>) =
             Inr (connection_made\<lparr>data := r, state := HEADERS, subscriber_id := Some sid\<rparr>)"
      using Some ar a wf(4) by (simp add: init_block_def connection_made_def)
    show ?thesis
    proof (cases "split1 (CRLF @ CRLF) r")
      case None
      then show ?thesis
        by (simp add: quiet_def data_received_def i)
           (simp add: headers_block_def body_block_def connection_made_def)
    next
      case (Some hb)
      obtain h r2 where hb: "hb = (h, r2)" by (cases hb)
      with Some split1_append[of "CRLF @ CRLF" r h r2 q] wf(2) r
      have h: "h = headers" and r2: "r2 @ q = body" by simp_all
      from r2 q(2) have len: "length r2 < length body" by auto
      have hh: "headers_block (connection_made\<lparr>data := r, state := HEADERS,
                                subscriber_id := Some sid\<rparr>) =
           Inr (connection_made\<lparr>data := r2, state := BODY, subscriber_id := Some sid,
                                length' := int (length body)\<rparr>)"
        using Some hb h wf(5,6,7) by (simp add: headers_block_def connection_made_def)
      show ?thesis
        using len by (simp add: quiet_def data_received_def i hh)
          (simp add: body_block_def connection_made_def)
    qed
  qed
qed

lemma concat_take_strict_prefix:
  assumes "[] \<notin> set cs" "k < length cs"
  shows "strict_prefix (concat (take k cs)) (concat cs)"
proof -
  have "concat cs = concat (take k cs) @ concat (drop k cs)"
    by (metis append_take_drop_id concat_append)
  moreover from assms have "concat (drop k cs) \<noteq> []"
    by (metis Cons_nth_drop_Suc concat.simps(2) append_is_Nil_conv nth_mem)
  ultimately show ?thesis by (metis strict_prefixI' append_Nil2 prefixI strict_prefix_def same_append_eq)
qed

text \<open>
  Well-formed messages exist for every subscriber and every body: a subscriber name
  without white space, the single header \<^verbatim>\<open>Content-Length\<close> and a body of that length.
\<close>

lemma split1_first:
  assumes "sep \<noteq> []" and "hd sep \<notin> set a"
  shows "split1 sep (a @ sep @ b) = Some (a, b)"
  using assms
proof (induction a)
  case Nil
  then obtain c cs where "sep = c # cs" by (cases sep) auto
  then show ?case by simp
next
  case (Cons x a)
  from Cons.prems obtain c cs where sep: "sep = c # cs" by (cases sep) auto
  with Cons.prems have "x \<noteq> c" by auto
  with sep have "\<not> prefix sep (x # a @ sep @ b)" by simp
  with Cons show ?case by simp
qed

lemma split_ws_word:
  assumes "w \<noteq> []" and "\<forall>c\<in>set w. \<not> is_space c" and "is_space d"
  shows "split_ws (w @ d # rest) = w # split_ws rest"
proof -
  from assms(1) obtain c w' where w: "w = c # w'" by (cases w) auto
  with assms(2) have c: "\<not> is_space c" and w': "\<forall>x\<in>set w'. \<not> is_space x" by auto
  from assms(2,3) have "takeWhile (\<lambda>x. \<not> is_space x) (w @ d # rest) = w"
    by (simp add: takeWhile_append2)
  moreover from w' assms(3) have "dropWhile (\<lambda>x. \<not> is_space x) (w' @ d # rest) = d # rest"
    by (simp add: dropWhile_append2)
  ultimately show ?thesis using c w assms(3) by simp
qed

lemma split_ws_last:
  assumes "w \<noteq> []" and "\<forall>c\<in>set w. \<not> is_space c"
  shows "split_ws w = [w]"
proof -
  from assms(1) obtain c w' where w: "w = c # w'" by (cases w) auto
  with assms(2) have c: "\<not> is_space c" and w': "\<forall>x\<in>set w'. \<not> is_space x" by auto
  from c have "split_ws (c # w') =
      takeWhile (\<lambda>x. \<not> is_space x) (c # w') # split_ws (dropWhile (\<lambda>x. \<not> is_space x) w')"
    by simp
  moreover from assms(2) w have "takeWhile (\<lambda>x. \<not> is_space x) (c # w') = c # w'" by simp
  moreover from w' have "dropWhile (\<lambda>x. \<not> is_space x) w' = []" by simp
  ultimately show ?thesis using w by (simp only: split_ws.simps(1))
qed

lemma request_line_words:
  assumes "\<forall>c\<in>set sid. \<not> is_space c"
  shows "split_ws (''POST /'' @ sid @ '' HTTP/1.1'') = [''POST'', CHR ''/'' # sid, ''HTTP/1.1'']"
proof -
  have sp: "is_space (CHR '' '')" by (simp add: is_space_def)
  have a: "\<forall>c\<in>set ''POST''. \<not> is_space c" by (simp add: is_space_def)
  have b: "\<forall>c\<in>set (CHR ''/'' # sid). \<not> is_space c" using assms by (simp add: is_space_def)
  have c: "\<forall>c\<in>set ''HTTP/1.1''. \<not> is_space c" by (simp add: is_space_def)
  have "''POST /'' @ sid @ '' HTTP/1.1'' =
        ''POST'' @ CHR '' '' # ((CHR ''/'' # sid) @ CHR '' '' # ''HTTP/1.1'')" by simp
  then have "split_ws (''POST /'' @ sid @ '' HTTP/1.1'') =
        ''POST'' # split_ws ((CHR ''/'' # sid) @ CHR '' '' # ''HTTP/1.1'')"
    using split_ws_word[OF _ a sp] by simp
  also have "split_ws ((CHR ''/'' # sid) @ CHR '' '' # ''HTTP/1.1'') =
        (CHR ''/'' # sid) # split_ws ''HTTP/1.1''"
    using split_ws_word[OF _ b sp] by simp
  also have "split_ws ''HTTP/1.1'' = [''HTTP/1.1'']"
    using split_ws_last[OF _ c] by simp
  finally show ?thesis .
qed

lemma readlines_single: "s \<noteq> [] \<Longrightarrow> LF \<notin> set s \<Longrightarrow> readlines s = [s]"
proof (induction s)
  case Nil
  then show ?case by simp
next
  case (Cons c s)
  then show ?case by (cases s) auto
qed

lemma strip_clean:
  assumes "\<forall>c\<in>set s. \<not> is_space c"
  shows "strip (CHR '' '' # s) = s"
proof -
  have "dropWhile is_space (CHR '' '' # s) = s"
    using assms by (cases s) (auto simp: is_space_def)
  moreover have "dropWhile is_space (rev s) = rev s"
  proof (cases "rev s")
    case Nil
    then show ?thesis by simp
  next
    case (Cons x xs)
    then have "x \<in> set s" by (metis list.set_intros(1) set_rev)
    with assms Cons show ?thesis by simp
  qed
  ultimately show ?thesis by (simp add: strip_def)
qed

lemma lower_content_length:
  "lower ''Content-Length'' = ''content-length''" "lower ''content-length'' = ''content-length''"
  by code_simp+

lemma readheaders_single:
  assumes "\<not> prefix ''From '' line" and "line \<noteq> CRLF" and "line \<noteq> [LF]"
    and "isheader line = Some name" and "name \<noteq> []"
  shows "readheaders [line] True [] [] = [(name, strip (drop (length name + 1) line))]"
  using assms by simp

lemma content_length_header:
  assumes "\<forall>c\<in>set len. \<not> is_space c"
  shows "Message_get (''Content-Length: '' @ len) ''content-length'' = Some len"
proof -
  from assms have "LF \<notin> set len" by (auto simp: is_space_def LF_def)
  then have "LF \<notin> set (''Content-Length: '' @ len)" by (simp add: LF_def)
  then have r: "readlines (''Content-Length: '' @ len) = [''Content-Length: '' @ len]"
    by (intro readlines_single) simp_all
  have i: "isheader (''Content-Length: '' @ len) = Some ''content-length''"
    by (simp add: isheader_def lower_content_length)
  have d: "drop (length ''content-length'' + 1) (''Content-Length: '' @ len) = CHR '' '' # len"
    by simp
  have "readheaders [''Content-Length: '' @ len] True [] [] =
        [(''content-length'', strip (drop (length ''content-length'' + 1) (''Content-Length: '' @ len)))]"
    by (rule readheaders_single[OF _ _ _ i]) (simp_all add: CRLF_def CR_def LF_def)
  then have "readheaders [''Content-Length: '' @ len] True [] [] = [(''content-length'', len)]"
    unfolding d strip_clean[OF assms] .
  with r show ?thesis by (simp add: Message_get_def lower_content_length)
qed

lemma well_formed_simple:
  assumes "sid \<noteq> []" and "\<forall>c\<in>set sid. \<not> is_space c"
    and "\<forall>c\<in>set len. \<not> is_space c" and "py_int len = Some (int (length body))"
  shows "well_formed (''POST /'' @ sid @ '' HTTP/1.1'') (''Content-Length: '' @ len) body sid"
proof -
  have cr: "is_space CR" by (simp add: is_space_def CR_def)
  with assms(2,3) have "CR \<notin> set sid" "CR \<notin> set len" by auto
  then have l: "hd CRLF \<notin> set (''POST /'' @ sid @ '' HTTP/1.1'')"
    and h: "hd (CRLF @ CRLF) \<notin> set (''Content-Length: '' @ len)"
    by (simp_all add: CRLF_def CR_def)
  have "split1 CRLF ((''POST /'' @ sid @ '' HTTP/1.1'') @ CRLF @ (''Content-Length: '' @ len) @ CRLF @ CRLF @ body)
        = Some (''POST /'' @ sid @ '' HTTP/1.1'', (''Content-Length: '' @ len) @ CRLF @ CRLF @ body)"
    by (rule split1_first[OF _ l]) (simp add: CRLF_def)
  moreover have "split1 (CRLF @ CRLF) ((''Content-Length: '' @ len) @ (CRLF @ CRLF) @ body)
        = Some (''Content-Length: '' @ len, body)"
    by (rule split1_first[OF _ h]) (simp add: CRLF_def)
  ultimately show ?thesis
    using assms(1,4) request_line_words[OF assms(2)] content_length_header[OF assms(3)]
    by (simp add: well_formed_def message_def)
qed

text \<open>
  Claim C6. A well-formed notification message, cut into chunks at arbitrary places (no
  chunk empty), makes the parser hand the factory the same data as the whole message in
  one chunk does: once, the body for the subscriber.
\<close>

theorem chunking_invariance:
  assumes "well_formed line headers body sid"
    and "concat cs = message line headers body"
    and "[] \<notin> set cs"
  shows "feed connection_made cs = feed connection_made [message line headers body] \<and>
         (\<exists>s. feed connection_made cs = Inr s \<and> sent s = [(body, sid)])"
proof -
  from assms(2) have ne: "cs \<noteq> []" by (auto simp: message_def CRLF_def)
  have "quiet connection_made (concat (take k cs))" if "k < length cs" for k
    using quiet_prefix[OF assms(1)] concat_take_strict_prefix[OF assms(3) that] assms(2)
    by simp
  with ne have "feed connection_made cs = data_received connection_made (concat cs)"
    by (intro feed_concat) simp_all
  then show ?thesis
    using assms(2) data_received_whole[OF assms(1)] by (simp split: sum.splits)
qed

theorem chunking_invariance_witness:
  "well_formed ''POST /sub1 HTTP/1.1'' ''Content-Length: 5'' ''hello'' ''sub1'' \<and>
   concat (map (\<lambda>c. [c]) scenario_d) =
     message ''POST /sub1 HTTP/1.1'' ''Content-Length: 5'' ''hello'' \<and>
   [] \<notin> set (map (\<lambda>c. [c]) scenario_d) \<and>
   feed connection_made (map (\<lambda>c. [c]) scenario_d) =
     feed connection_made [message ''POST /sub1 HTTP/1.1'' ''Content-Length: 5'' ''hello''] \<and>
   (\<exists>s. feed connection_made (map (\<lambda>c. [c]) scenario_d) = Inr s \<and>
        sent s = [(''hello'', ''sub1'')])"
proof -
  have w: "well_formed ''POST /sub1 HTTP/1.1'' ''Content-Length: 5'' ''hello'' ''sub1''"
    by code_simp
  have c: "concat (map (\<lambda>c. [c]) scenario_d) =
           message ''POST /sub1 HTTP/1.1'' ''Content-Length: 5'' ''hello''"
    by code_simp
  have n: "[] \<notin> set (map (\<lambda>c. [c]) scenario_d)" by auto
  show ?thesis using w c n chunking_invariance[OF w c n] by blast
qed

text \<open>
  Claim C4. The bytes \<^verbatim>\<open>POST /sub1 HTTP/1.1\r\nContent-Length: 5\r\n\r\nhello\<close> in one
  chunk: the factory receives the body \<^verbatim>\<open>hello\<close> for the subscriber \<^verbatim>\<open>sub1\<close>, the
  status line \<^verbatim>\<open>200 OK\<close> is written and the transport is closed.
\<close>

theorem scenario_d_delivered:
  "data_received connection_made scenario_d =
   Inr \<lparr>data = ''hello'', state = BODY, subscriber_id = Some ''sub1'', length' = 5,
        written = [''HTTP/1.0 200 OK'' @ CRLF @ CRLF], closed = True,
        sent = [(''hello'', ''sub1'')]\<rparr>"
  by code_simp

subsection \<open>Malformed notifications\<close>

text \<open>A verb other than \<^verbatim>\<open>POST\<close> is answered with 405 and the transport is closed.\<close>

lemma bad_verb_answered:
  assumes "state s = INIT" and "split1 CRLF (data s @ chunk) = Some (line, rest)"
    and "split_ws line = [verb, uri, version]" and "verb \<noteq> ''POST''"
  shows "data_received s chunk = Inr (write_status ''405 Not Allowed'' (s\<lparr>data := rest\<rparr>))"
  using assms by (simp add: data_received_def init_block_def)

text \<open>A header block without a content length is answered with 400 and the transport is closed.\<close>

lemma missing_length_answered:
  assumes "state s = HEADERS" and "split1 (CRLF @ CRLF) (data s @ chunk) = Some (headers, rest)"
    and "Message_get headers ''content-length'' = None"
  shows "data_received s chunk = Inr (write_status ''400 Bad Request'' (s\<lparr>data := rest\<rparr>))"
  using assms by (simp add: data_received_def init_block_def headers_block_def)

text \<open>
  Claim C5. Every malformed notification is to be answered with a 4xx status line and a
  close, with no exception leaving \<^verbatim>\<open>data_received\<close>. A request line of two words is
  not: the unpacking of \<^verbatim>\<open>first_line.split()\<close> raises \<^verbatim>\<open>ValueError\<close>, nothing is
  written and the transport stays open.
\<close>

theorem short_request_line_raises:
  "data_received connection_made (''POST /sub1'' @ CRLF) =
   Inl (ValueError,
        \<lparr>data = [], state = INIT, subscriber_id = None, length' = 0,
         written = [], closed = False, sent = []\<rparr>)"
  by code_simp

section \<open>The messaging protocol: routing and the authentication life cycle\<close>

lemma send_response_fields [simp]:
  "authentified (send_response h L r s) = authentified s"
  "deauth_handle (send_response h L r s) = deauth_handle s"
  "timers (send_response h L r s) = timers s"
  by (simp_all add: send_response_def)

text \<open>
  Frames and the authenticator's answer leave the authentication flag, the handle and
  the timers alone, whether the callback returns or raises.
\<close>

definition keeps :: "session \<Rightarrow> session outcome \<Rightarrow> bool" where
  "keeps s r =
     (authentified (after r) = authentified s \<and> deauth_handle (after r) = deauth_handle s \<and>
      timers (after r) = timers s)"

lemma keeps_simps [simp]:
  "keeps s (Inl (e, s))"
  "keeps s (Inr s)"
  "keeps s (Inr (send_response h L r s))"
  by (simp_all add: keeps_def after_def)





lemma status_200: "split_ws ''200 OK'' = [''200'', ''OK'']" "py_int ''200'' = Some 200"
  by code_simp+

lemma auth_response_200:
  "auth_response h L ''200 OK'' s =
   Inr (send_response h L
          (create_response h 200 (JObj [(''message'', JStr ''Authentified.'')])
             (Some (create_request h (JObj [(''action'', JStr ''authenticate'')])))) s)"
  by (simp add: auth_response_def status_200 del: split_ws.simps)









text \<open>
  Claim C2, as amended. A frame that decodes to an object and passes validation, on a
  session with no authentication strategy or already authenticated: for every action
  other than \<^verbatim>\<open>authenticate\<close> it is handed to \<^verbatim>\<open>process_request\<close> with the session, and
  the result is the response sent; a frame with the action \<^verbatim>\<open>authenticate\<close> is handed to
  \<^verbatim>\<open>_authenticate\<close> instead, which, given a strategy and a mapping of headers, stores the
  authenticator as pending and calls it with the environment built from the headers,
  and sends no response.
\<close>

theorem dispatch_when_open:
  assumes "loads L raw = Inr (JObj kvs)"
    and "validate_request h (JObj kvs) (create_request h (JObj kvs)) = None"
    and "auth_strategy s = None \<or> authentified s"
  shows "onMessage h L s raw False =
           (if map_of kvs ''action'' = Some (JStr ''authenticate'') then authenticate s (JObj kvs)
            else Inr (s\<lparr>events := events s @
                   [SendMessage (dumps L (get_response h
                      (process_request h (create_request h (JObj kvs)) s))) False]\<rparr>)) \<and>
         (map_of kvs ''action'' = Some (JStr ''authenticate'') \<and>
          auth_strategy s = Some strategy \<and> map_of kvs ''headers'' = Some (JObj headers) \<longrightarrow>
          onMessage h L s raw False =
            Inr (s\<lparr>auth_app := Some (AuthApp strategy),
                   events := events s @
                     [AuthCall (fold (\<lambda>(key, value). AList.update (header_to_env_var key) value)
                                  headers fake_env)]\<rparr>))"
  using assms
  by (auto simp: onMessage_def py_get_def py_items_def authenticate_def send_response_def Let_def
      split: option.splits)

theorem dispatch_when_open_witness:
  "loads demo_lib frame_signed =
     Inr (JObj [(''action'', JStr ''queue_list''),
                (''headers'', JObj [(''URL-Signature'', JStr ''key'')])]) \<and>
   onMessage demo_handler demo_lib authenticated_session frame_signed False =
     Inr (authenticated_session\<lparr>events :=
            [SendMessage (demo_dumps (JObj [(''status'', JNum 200),
               (''body'', JObj [(''message'', JStr ''done'')])])) False]\<rparr>) \<and>
   loads demo_lib frame_authenticate_headers =
     Inr (JObj [(''action'', JStr ''authenticate''), (''headers'', JObj [])]) \<and>
   onMessage demo_handler demo_lib authenticated_session frame_authenticate_headers False =
     Inr (authenticated_session\<lparr>auth_app := Some (AuthApp Strategy),
                                events := [AuthCall fake_env]\<rparr>)"
proof -
  have l: "loads demo_lib frame_signed =
     Inr (JObj [(''action'', JStr ''queue_list''),
                (''headers'', JObj [(''URL-Signature'', JStr ''key'')])])"
    by code_simp
  have v: "validate_request demo_handler
             (JObj [(''action'', JStr ''queue_list''),
                    (''headers'', JObj [(''URL-Signature'', JStr ''key'')])])
             (create_request demo_handler
                (JObj [(''action'', JStr ''queue_list''),
                       (''headers'', JObj [(''URL-Signature'', JStr ''key'')])])) = None"
    by code_simp
  have l': "loads demo_lib frame_authenticate_headers =
     Inr (JObj [(''action'', JStr ''authenticate''), (''headers'', JObj [])])"
    by code_simp
  have v': "validate_request demo_handler
             (JObj [(''action'', JStr ''authenticate''), (''headers'', JObj [])])
             (create_request demo_handler
                (JObj [(''action'', JStr ''authenticate''), (''headers'', JObj [])])) = None"
    by code_simp
  have a: "auth_strategy authenticated_session = None \<or> authentified authenticated_session"
    by (simp add: authenticated_session_def)
  have g: "get_response demo_handler
             (process_request demo_handler
                (create_request demo_handler
                   (JObj [(''action'', JStr ''queue_list''),
                          (''headers'', JObj [(''URL-Signature'', JStr ''key'')])]))
                authenticated_session) =
           JObj [(''status'', JNum 200), (''body'', JObj [(''message'', JStr ''done'')])]"
    "dumps demo_lib = demo_dumps"
    "events authenticated_session = []"
    "auth_strategy authenticated_session = Some Strategy"
    by (simp_all add: demo_handler_def demo_lib_def authenticated_session_def)
  have r: "onMessage demo_handler demo_lib authenticated_session frame_signed False =
     Inr (authenticated_session\<lparr>events :=
            [SendMessage (demo_dumps (JObj [(''status'', JNum 200),
               (''body'', JObj [(''message'', JStr ''done'')])])) False]\<rparr>)"
    using dispatch_when_open[OF l v a, THEN conjunct1] by (simp add: g)
  have r': "onMessage demo_handler demo_lib authenticated_session frame_authenticate_headers False =
     Inr (authenticated_session\<lparr>auth_app := Some (AuthApp Strategy),
                                events := [AuthCall fake_env]\<rparr>)"
    using dispatch_when_open[OF l' v' a, THEN conjunct2, of Strategy "[]"] by (simp add: g)
  show ?thesis using l l' r r' by simp
qed

text \<open>
  Claim C2 as stated fails for the action \<^verbatim>\<open>authenticate\<close>: on an authenticated
  session the frame starts the authenticator again, and no response is sent.
\<close>

theorem dispatch_authenticate_counterexample:
  "loads demo_lib frame_authenticate_headers =
     Inr (JObj [(''action'', JStr ''authenticate''), (''headers'', JObj [])]) \<and>
   validate_request demo_handler
     (JObj [(''action'', JStr ''authenticate''), (''headers'', JObj [])])
     (create_request demo_handler
        (JObj [(''action'', JStr ''authenticate''), (''headers'', JObj [])])) = None \<and>
   authentified authenticated_session \<and>
   onMessage demo_handler demo_lib authenticated_session frame_authenticate_headers False =
     Inr (authenticated_session\<lparr>auth_app := Some (AuthApp Strategy),
                                events := [AuthCall fake_env]\<rparr>) \<and>
   onMessage demo_handler demo_lib authenticated_session frame_authenticate_headers False \<noteq>
     Inr (authenticated_session\<lparr>events :=
            [SendMessage (dumps demo_lib (get_response demo_handler
               (process_request demo_handler
                  (create_request demo_handler
                     (JObj [(''action'', JStr ''authenticate''), (''headers'', JObj [])]))
                  authenticated_session))) False]\<rparr>)"
  by code_simp

text \<open>
  Claim C3, as amended. When a pending expiry timer fires, the session becomes
  unauthenticated and the connection is closed with code 4003 and the reason
  \<^verbatim>\<open>Authentication expired.\<close>; the timer is no longer pending, and the handle the
  session holds is left as it was.
\<close>

theorem expiry_effect:
  assumes "handle \<in> set (map fst (timers s))"
  shows "step h L s (TimerFires handle) =
         Inr (s\<lparr>timers := filter (\<lambda>t. fst t \<noteq> handle) (timers s),
                authentified := False,
                events := events s @ [SendClose 4003 ''Authentication expired.'']\<rparr>)"
  using assms by (simp add: step_def deauthenticate_def cancel_def)

theorem expiry_effect_witness:
  "0 \<in> set (map fst (timers authenticated_session)) \<and>
   step demo_handler demo_lib authenticated_session (TimerFires 0) =
     Inr (authenticated_session\<lparr>timers := filter (\<lambda>t. fst t \<noteq> 0) (timers authenticated_session),
            authentified := False,
            events := events authenticated_session @ [SendClose 4003 ''Authentication expired.'']\<rparr>)"
proof -
  have m: "0 \<in> set (map fst (timers authenticated_session))"
    by (simp add: authenticated_session_def)
  show ?thesis using m expiry_effect[OF m] by simp
qed

text \<open>Claim C3 as stated fails: after the timer has fired, the handle is not null.\<close>

theorem expiry_handle_counterexample:
  "\<not> isl (step demo_handler demo_lib authenticated_session (TimerFires 0)) \<and>
   \<not> authentified (projr (step demo_handler demo_lib authenticated_session (TimerFires 0))) \<and>
   deauth_handle (projr (step demo_handler demo_lib authenticated_session (TimerFires 0)))
     = Some 0"
  by code_simp




text \<open>
  Claim C8. A valid frame on a session that requires authentication and is not
  authenticated, when an authenticator is pending or the action is not
  \<^verbatim>\<open>authenticate\<close>: with a \<^verbatim>\<open>URL-Signature\<close> header whose verification against the
  secret key succeeds, the frame is handed to \<^verbatim>\<open>process_request\<close> and the result is
  sent; with no such header, or when the verification fails, the response sent is 403
  with the error \<^verbatim>\<open>Not authentified.\<close>
\<close>

theorem signature_path:
  assumes "loads L raw = Inr (JObj kvs)"
    and "validate_request h (JObj kvs) (create_request h (JObj kvs)) = None"
    and "auth_strategy s \<noteq> None" and "\<not> authentified s"
    and "auth_app s \<noteq> None \<or> map_of kvs ''action'' \<noteq> Some (JStr ''authenticate'')"
    and "headers_is_mapping kvs"
  shows "onMessage h L s raw False =
         Inr (s\<lparr>events := events s @
                [SendMessage (dumps L (get_response h
                   (if url_signature_present kvs \<and> verify_signature h (secret_key s) (JObj kvs)
                    then process_request h (create_request h (JObj kvs)) s
                    else create_response h 403 (JObj [(''error'', JStr ''Not authentified.'')])
                           (Some (create_request h (JObj kvs)))))) False]\<rparr>)"
  using assms
  by (auto simp: onMessage_def py_get_def py_in_def url_signature_present_def send_response_def
      headers_is_mapping_def Let_def split: option.splits json.splits bool.splits)

theorem signature_path_witness:
  "loads demo_lib frame_signed =
     Inr (JObj [(''action'', JStr ''queue_list''),
                (''headers'', JObj [(''URL-Signature'', JStr ''key'')])]) \<and>
   url_signature_present [(''action'', JStr ''queue_list''),
                (''headers'', JObj [(''URL-Signature'', JStr ''key'')])] \<and>
   verify_signature demo_handler ''key'' (JObj [(''action'', JStr ''queue_list''),
                (''headers'', JObj [(''URL-Signature'', JStr ''key'')])]) \<and>
   onMessage demo_handler demo_lib (init (Some Strategy) ''key'') frame_signed False =
     Inr ((init (Some Strategy) ''key'')\<lparr>events := events (init (Some Strategy) ''key'') @
            [SendMessage (dumps demo_lib (get_response demo_handler
               (process_request demo_handler
                  (create_request demo_handler
                     (JObj [(''action'', JStr ''queue_list''),
                            (''headers'', JObj [(''URL-Signature'', JStr ''key'')])]))
                  (init (Some Strategy) ''key'')))) False]\<rparr>)"
proof -
  have l: "loads demo_lib frame_signed =
     Inr (JObj [(''action'', JStr ''queue_list''),
                (''headers'', JObj [(''URL-Signature'', JStr ''key'')])])"
    by code_simp
  have v: "validate_request demo_handler
             (JObj [(''action'', JStr ''queue_list''),
                    (''headers'', JObj [(''URL-Signature'', JStr ''key'')])])
             (create_request demo_handler
                (JObj [(''action'', JStr ''queue_list''),
                       (''headers'', JObj [(''URL-Signature'', JStr ''key'')])])) = None"
    by code_simp
  have a: "auth_strategy (init (Some Strategy) ''key'') \<noteq> None"
    and n: "\<not> authentified (init (Some Strategy) ''key'')"
    and k: "secret_key (init (Some Strategy) ''key'') = ''key''"
    by (simp_all add: init_def)
  have p: "auth_app (init (Some Strategy) ''key'') \<noteq> None \<or>
           map_of [(''action'', JStr ''queue_list''),
                   (''headers'', JObj [(''URL-Signature'', JStr ''key'')])] ''action''
           \<noteq> Some (JStr ''authenticate'')"
    by simp
  have m: "headers_is_mapping [(''action'', JStr ''queue_list''),
                   (''headers'', JObj [(''URL-Signature'', JStr ''key'')])]"
    by code_simp
  have u: "url_signature_present [(''action'', JStr ''queue_list''),
                (''headers'', JObj [(''URL-Signature'', JStr ''key'')])]"
    by code_simp
  have g: "verify_signature demo_handler ''key'' (JObj [(''action'', JStr ''queue_list''),
                (''headers'', JObj [(''URL-Signature'', JStr ''key'')])])"
    by code_simp
  show ?thesis using l u g k signature_path[OF l v a n p m] by simp
qed

text \<open>
  Claim C9. When the authenticator accepts, the session becomes authenticated, the
  pending authenticator is cleared, the timer of the old handle is cancelled, a new timer
  is scheduled with the delay \<open>expire_time - now\<close> whatever its sign, and the response
  with status 200 and the message \<^verbatim>\<open>Authentified.\<close> is sent for the action
  \<^verbatim>\<open>authenticate\<close>.
\<close>

theorem auth_resolved_200:
  assumes "token_expires_at env = Inr expire"
    and "parse_isotime L expire = Some expire_time"
  shows "auth_start L s env now (auth_response h L) =
         Inr (s\<lparr>authentified := True, auth_app := None,
                timers := filter (\<lambda>t. Some (fst t) \<noteq> deauth_handle s) (timers s)
                          @ [(next_handle s, expire_time - now)],
                next_handle := Suc (next_handle s),
                deauth_handle := Some (next_handle s),
                events := events s @
                  [SendMessage (dumps L (get_response h
                     (create_response h 200 (JObj [(''message'', JStr ''Authentified.'')])
                        (Some (create_request h (JObj [(''action'', JStr ''authenticate'')]))))))
                     False]\<rparr>)"
  using assms
  by (cases "deauth_handle s")
     (simp_all add: auth_start_def auth_response_200 call_later_def cancel_def
       send_response_def Let_def)

theorem auth_resolved_200_witness:
  "token_expires_at demo_env = Inr (JStr ''1970-01-01T00:01:00Z'') \<and>
   parse_isotime demo_lib (JStr ''1970-01-01T00:01:00Z'') = Some 60 \<and>
   auth_start demo_lib authenticated_session demo_env 75 (auth_response demo_handler demo_lib) =
     Inr (authenticated_session\<lparr>timers := [(1, - 15)], next_handle := 2,
            deauth_handle := Some 1,
            events := [SendMessage (dumps demo_lib (get_response demo_handler
                     (create_response demo_handler 200
                        (JObj [(''message'', JStr ''Authentified.'')])
                        (Some (create_request demo_handler
                           (JObj [(''action'', JStr ''authenticate'')])))))) False]\<rparr>)"
proof -
  have e: "token_expires_at demo_env = Inr (JStr ''1970-01-01T00:01:00Z'')"
    by code_simp
  have t: "parse_isotime demo_lib (JStr ''1970-01-01T00:01:00Z'') = Some 60"
    by code_simp
  show ?thesis
    using e t auth_resolved_200[OF e t, of authenticated_session 75 demo_handler]
    by (simp add: authenticated_session_def)
qed

text \<open>
  Claim C10. A valid \<^verbatim>\<open>authenticate\<close> frame without the key \<^verbatim>\<open>headers\<close> makes
  \<^verbatim>\<open>_authenticate\<close> raise \<^verbatim>\<open>AttributeError\<close> (\<^verbatim>\<open>None\<close> has no \<^verbatim>\<open>items\<close>), with the
  authenticator already stored as pending.
\<close>

theorem authenticate_without_headers:
  assumes "loads L raw = Inr (JObj kvs)"
    and "validate_request h (JObj kvs) (create_request h (JObj kvs)) = None"
    and "map_of kvs ''action'' = Some (JStr ''authenticate'')"
    and "map_of kvs ''headers'' = None"
    and "auth_strategy s = Some strategy"
    and "authentified s \<or> auth_app s = None"
  shows "onMessage h L s raw False = Inl (AttributeError, s\<lparr>auth_app := Some (AuthApp strategy)\<rparr>)"
  using assms
  by (auto simp: onMessage_def authenticate_def py_get_def py_items_def Let_def)

theorem authenticate_without_headers_witness:
  "loads demo_lib frame_authenticate = Inr (JObj [(''action'', JStr ''authenticate'')]) \<and>
   onMessage demo_handler demo_lib (init (Some Strategy) ''key'') frame_authenticate False =
     Inl (AttributeError, (init (Some Strategy) ''key'')\<lparr>auth_app := Some (AuthApp Strategy)\<rparr>)"
proof -
  have l: "loads demo_lib frame_authenticate = Inr (JObj [(''action'', JStr ''authenticate'')])"
    by code_simp
  have v: "validate_request demo_handler (JObj [(''action'', JStr ''authenticate'')])
             (create_request demo_handler (JObj [(''action'', JStr ''authenticate'')])) = None"
    by code_simp
  have a: "map_of [(''action'', JStr ''authenticate'')] ''action'' = Some (JStr ''authenticate'')"
    and n: "map_of [(''action'', JStr ''authenticate'')] ''headers'' = None"
    by simp_all
  have s: "auth_strategy (init (Some Strategy) ''key'') = Some Strategy"
    and p: "authentified (init (Some Strategy) ''key'') \<or> auth_app (init (Some Strategy) ''key'') = None"
    by (simp_all add: init_def)
  show ?thesis using l authenticate_without_headers[OF l v a n s p] by simp
qed

end
